theory Spec2Isabelle
  imports Main "HOL-Library.Word" "HOL-Library.Multiset"
begin

section \<open>Data model\<close>

text \<open>
  A JavaScript string is a sequence of UTF-16 code units; \<open>.length\<close> counts code units
  and \<open>===\<close> on strings compares them one by one. \<open>js\<close> writes an ASCII literal of the
  source as such a sequence.
\<close>

type_synonym code_unit = "16 word"

type_synonym jsstring = "code_unit list"

definition js :: "string \<Rightarrow> jsstring" where
  "js s = map of_char s"

text \<open>A MongoDB ObjectId is a 12-byte value.\<close>

type_synonym objectId = "96 word"

text \<open>
  The Argument schema: \<open>debate\<close> (ObjectId, required), \<open>side\<close> (String,
  required), \<open>text\<close> (String, required), \<open>authorName\<close> (String, required), \<open>user\<close>
  (ObjectId) and, from \<open>timestamps: true\<close>, \<open>createdAt\<close> (milliseconds). The schema lists
  the values \<open>for\<close> and \<open>against\<close> for \<open>side\<close>, but the handlers compare the stored
  string, so the field stays a string here. The field \<open>text\<close> is \<open>arg_text\<close>.
\<close>

record argument =
  debate :: objectId
  side :: jsstring
  arg_text :: jsstring
  authorName :: jsstring
  user :: "objectId option"
  createdAt :: int

text \<open>The winner is one of the string literals \<open>"FOR"\<close>, \<open>"AGAINST"\<close>, \<open>"DRAW"\<close>.\<close>

datatype winner = FOR | AGAINST | DRAW

text \<open>
  The \<open>stats\<close> object of the handlers. The source's fields \<open>for\<close> and \<open>against\<close> are
  \<open>forCount\<close> and \<open>againstCount\<close> here. The counters start at 0 and grow by 1 or 2 for
  each element of an array, far below the 2^53 up to which a JavaScript number is an
  exact integer, so they are natural numbers.
\<close>

record stats =
  forCount :: nat
  againstCount :: nat
  participants :: nat
  forPoints :: nat
  againstPoints :: nat
  winner :: winner

text \<open>
  A \<open>Set\<close> of strings keeps its elements in insertion order; \<open>add\<close> of an element that
  is already there changes nothing, and \<open>size\<close> is the number of elements.
\<close>

definition set_add :: "'a list \<Rightarrow> 'a \<Rightarrow> 'a list" where
  "set_add s x = (if x \<in> set s then s else s @ [x])"

section \<open>GET /api/debates/:id: statistics of one debate\<close>

text \<open>
  \<open>const isLong = arg.text.length >= 120 ? 1 : 0\<close>, the first line of the loop body in
  both endpoints.
\<close>

definition isLong :: "argument \<Rightarrow> nat" where
  "isLong arg = (if 120 \<le> length (arg_text arg) then 1 else 0)"

definition stats_init :: stats where
  "stats_init = \<lparr>forCount = 0, againstCount = 0, participants = 0,
     forPoints = 0, againstPoints = 0, winner = DRAW\<rparr>"

text \<open>
  The body of \<open>argumentsList.forEach\<close>; the state is the \<open>stats\<close> object and the local
  \<open>participantsSet\<close>.
\<close>

definition tally :: "stats \<times> jsstring list \<Rightarrow> argument \<Rightarrow> stats \<times> jsstring list" where
  "tally acc arg =
     (case acc of (st, participantsSet) \<Rightarrow>
        let participantsSet' = set_add participantsSet (authorName arg) in
        if side arg = js ''for''
        then (st\<lparr>forCount := forCount st + 1,
                 forPoints := forPoints st + (1 + isLong arg)\<rparr>, participantsSet')
        else (st\<lparr>againstCount := againstCount st + 1,
                 againstPoints := againstPoints st + (1 + isLong arg)\<rparr>, participantsSet'))"

text \<open>
  The scoring of the handler, on the list that
  \<open>Argument.find({ debate: id }).sort({ createdAt: 1 })\<close> returned: the loop, then
  \<open>stats.participants = participantsSet.size\<close>, then the winner.
\<close>

definition get_debate_stats :: "argument list \<Rightarrow> stats" where
  "get_debate_stats argumentsList =
     (case foldl tally (stats_init, []) argumentsList of (st, participantsSet) \<Rightarrow>
        let st1 = st\<lparr>participants := length participantsSet\<rparr>
        in if forPoints st1 > againstPoints st1 then st1\<lparr>winner := FOR\<rparr>
           else if againstPoints st1 > forPoints st1 then st1\<lparr>winner := AGAINST\<rparr>
           else st1\<lparr>winner := DRAW\<rparr>)"

section \<open>GET /api/debates: statistics of every debate\<close>

text \<open>
  The fields of a Debate document that the handlers read (\<open>_id\<close>, \<open>title\<close>,
  \<open>description\<close>, which may be absent).
\<close>

record debate_doc =
  debate_id :: objectId
  title :: jsstring
  description :: "jsstring option"

text \<open>
  An entry of \<open>statsMap\<close>: the statistics and the entry's own \<open>participantSet\<close>,
  which the final pass deletes.
\<close>

record entry = stats +
  participantSet :: "jsstring list"

type_synonym statsMap = "objectId \<rightharpoonup> entry"

text \<open>
  An exception inside the handler is caught and answered with status 500.
\<close>

datatype error = ServerError

definition entry_init :: entry where
  "entry_init = \<lparr>forCount = 0, againstCount = 0, participants = 0,
     forPoints = 0, againstPoints = 0, winner = DRAW, participantSet = []\<rparr>"

text \<open>\<open>debates.forEach(d => { statsMap[d._id] = {...} })\<close>\<close>

definition init_statsMap :: "debate_doc list \<Rightarrow> statsMap" where
  "init_statsMap debates = foldl (\<lambda>m d. m(debate_id d \<mapsto> entry_init)) Map.empty debates"

text \<open>
  The body of \<open>argumentsList.forEach\<close> on the entry \<open>st = statsMap[arg.debate]\<close>. When
  the map has no such entry, \<open>st\<close> is \<open>undefined\<close> and \<open>st.participantSet\<close> throws.
\<close>

definition tally_entry :: "entry \<Rightarrow> argument \<Rightarrow> entry" where
  "tally_entry st arg =
     (let st1 = st\<lparr>participantSet := set_add (participantSet st) (authorName arg)\<rparr> in
      if side arg = js ''for''
      then st1\<lparr>forCount := forCount st1 + 1, forPoints := forPoints st1 + (1 + isLong arg)\<rparr>
      else st1\<lparr>againstCount := againstCount st1 + 1,
               againstPoints := againstPoints st1 + (1 + isLong arg)\<rparr>)"

definition list_tally :: "statsMap \<Rightarrow> argument \<Rightarrow> error + statsMap" where
  "list_tally statsMap arg =
     (case statsMap (debate arg) of
        None \<Rightarrow> Inl ServerError
      | Some st \<Rightarrow> Inr (statsMap(debate arg \<mapsto> tally_entry st arg)))"

fun forEach_arguments :: "statsMap \<Rightarrow> argument list \<Rightarrow> error + statsMap" where
  "forEach_arguments statsMap [] = Inr statsMap"
| "forEach_arguments statsMap (arg # rest) =
     (case list_tally statsMap arg of
        Inl e \<Rightarrow> Inl e
      | Inr statsMap' \<Rightarrow> forEach_arguments statsMap' rest)"

text \<open>
  The final pass over \<open>Object.values(statsMap)\<close>: the size of the set, the deletion of
  \<open>participantSet\<close>, the winner.
\<close>

definition finalize :: "entry \<Rightarrow> stats" where
  "finalize st =
     (let st1 = st\<lparr>participants := length (participantSet st)\<rparr>;
          st2 = stats.truncate st1
      in if forPoints st2 > againstPoints st2 then st2\<lparr>winner := FOR\<rparr>
         else if againstPoints st2 > forPoints st2 then st2\<lparr>winner := AGAINST\<rparr>
         else st2\<lparr>winner := DRAW\<rparr>)"

text \<open>
  The handler after its two queries: \<open>debates\<close> is the result of \<open>Debate.find()\<close>,
  \<open>argumentsList\<close> the result of \<open>Argument.find({ debate: { $in: debateIds } })\<close>. Each
  debate is returned with \<open>statsMap[d._id]\<close>, or with the literal zero statistics when
  there is no entry.
\<close>

definition list_debates ::
  "debate_doc list \<Rightarrow> argument list \<Rightarrow> error + (debate_doc \<times> stats) list" where
  "list_debates debates argumentsList =
     (case forEach_arguments (init_statsMap debates) argumentsList of
        Inl e \<Rightarrow> Inl e
      | Inr statsMap \<Rightarrow>
          Inr (map (\<lambda>d. (d, case statsMap (debate_id d) of
                              Some st \<Rightarrow> finalize st
                            | None \<Rightarrow> \<lparr>forCount = 0, againstCount = 0, participants = 0,
                                forPoints = 0, againstPoints = 0, winner = DRAW\<rparr>))
                 debates))"

text \<open>
  The two queries on the collection of Argument documents: the documents whose
  \<open>debate\<close> is one of \<open>debateIds\<close>, and the documents of one debate in ascending
  order of \<open>createdAt\<close>. The database fixes no order among documents with equal
  \<open>createdAt\<close>; the sort here keeps them in the order of the collection.
\<close>

definition find_in :: "objectId list \<Rightarrow> argument list \<Rightarrow> argument list" where
  "find_in debateIds collection = filter (\<lambda>a. debate a \<in> set debateIds) collection"

definition find_sorted :: "objectId \<Rightarrow> argument list \<Rightarrow> argument list" where
  "find_sorted i collection = sort_key createdAt (filter (\<lambda>a. debate a = i) collection)"

section \<open>GET /api/debates/:id/export-xml\<close>

text \<open>
  \<open>str.replace(/c/g, r)\<close> for a pattern that is one literal character and a replacement
  without \<open>$\<close>: every occurrence of the character becomes \<open>r\<close>.
\<close>

definition replace_all :: "code_unit \<Rightarrow> jsstring \<Rightarrow> jsstring \<Rightarrow> jsstring" where
  "replace_all c r str = concat (map (\<lambda>x. if x = c then r else [x]) str)"

text \<open>
  The five replacements of \<open>escapeXml\<close>, applied in the order of the source: \<open>&\<close>,
  \<open><\<close>, \<open>>\<close>, the double quote (0x22), the apostrophe (0x27).
\<close>

definition escapeXml :: "jsstring \<Rightarrow> jsstring" where
  "escapeXml str =
     replace_all (of_char (CHR 0x27)) (js ''&apos;'')
       (replace_all (of_char (CHR 0x22)) (js ''&quot;'')
         (replace_all (of_char CHR ''>'') (js ''&gt;'')
           (replace_all (of_char CHR ''<'') (js ''&lt;'')
             (replace_all (of_char CHR ''&'') (js ''&amp;'') str))))"

text \<open>The double quote of the template literals.\<close>

definition dq :: jsstring where
  "dq = [of_char (CHR 0x22)]"

text \<open>
  The four lines that the loop of the export appends for one argument.
  \<open>toISOString\<close> renders the \<open>createdAt\<close> date.
\<close>

definition argument_xml :: "(int \<Rightarrow> jsstring) \<Rightarrow> argument \<Rightarrow> jsstring" where
  "argument_xml toISOString arg =
     js ''    <argument side='' @ dq @ side arg @ dq @ js '' author='' @ dq
       @ escapeXml (authorName arg) @ dq @ js ''>\<newline>''
     @ js ''      <text>'' @ escapeXml (arg_text arg) @ js ''</text>\<newline>''
     @ js ''      <createdAt>'' @ toISOString (createdAt arg) @ js ''</createdAt>\<newline>''
     @ js ''    </argument>\<newline>''"

text \<open>
  The document that the handler sends for a debate it has found. \<open>toString\<close> renders
  an ObjectId inside a template literal; \<open>debate.description || ''\<close> is the empty string
  for an absent description.
\<close>

definition export_xml ::
  "(objectId \<Rightarrow> jsstring) \<Rightarrow> (int \<Rightarrow> jsstring) \<Rightarrow> debate_doc \<Rightarrow> argument list \<Rightarrow> jsstring" where
  "export_xml toString toISOString debateDoc argumentsList =
     (let xml = js ''<?xml version='' @ dq @ js ''1.0'' @ dq @ js '' encoding='' @ dq
                  @ js ''UTF-8'' @ dq @ js ''?>\<newline>'';
          xml = xml @ js ''<debate id='' @ dq @ toString (debate_id debateDoc) @ dq
                  @ js ''>\<newline>'';
          xml = xml @ js ''  <title>'' @ escapeXml (title debateDoc) @ js ''</title>\<newline>'';
          xml = xml @ js ''  <description>''
                  @ escapeXml (case description debateDoc of None \<Rightarrow> [] | Some s \<Rightarrow> s)
                  @ js ''</description>\<newline>'';
          xml = xml @ js ''  <arguments>\<newline>'';
          xml = foldl (\<lambda>xml arg. xml @ argument_xml toISOString arg) xml argumentsList;
          xml = xml @ js ''  </arguments>\<newline>''
      in xml @ js ''</debate>\<newline>'')"

section \<open>Entity escaping as the specification words it\<close>

text \<open>
  The specification's escaping, one character at a time: each of the five characters
  becomes its entity, every other character stays.
\<close>

definition spec_xml_entity :: "code_unit \<Rightarrow> jsstring" where
  "spec_xml_entity c =
     (if c = of_char CHR ''&'' then js ''&amp;''
      else if c = of_char CHR ''<'' then js ''&lt;''
      else if c = of_char CHR ''>'' then js ''&gt;''
      else if c = of_char (CHR 0x22) then js ''&quot;''
      else if c = of_char (CHR 0x27) then js ''&apos;''
      else [c])"

definition spec_escapeXml :: "jsstring \<Rightarrow> jsstring" where
  "spec_escapeXml str = concat (map spec_xml_entity str)"

section \<open>Documents as the collection stores them\<close>









section \<open>An entry of the list endpoint as the state of the single-debate loop\<close>

text \<open>
  An entry of \<open>statsMap\<close> holds what the single-debate handler keeps in two local
  variables: the statistics and the set of author names.
\<close>

definition abs_entry :: "entry \<Rightarrow> stats \<times> jsstring list" where
  "abs_entry st = (stats.truncate st, participantSet st)"

section \<open>The statistics of one debate in closed form\<close>

lemma foldl_tally_forCount:
  "forCount (fst (foldl tally acc xs)) =
     forCount (fst acc) + length (filter (\<lambda>a. side a = js ''for'') xs)"
  by (induction xs arbitrary: acc) (auto simp: tally_def Let_def split: prod.splits)

lemma foldl_tally_againstCount:
  "againstCount (fst (foldl tally acc xs)) =
     againstCount (fst acc) + length (filter (\<lambda>a. side a \<noteq> js ''for'') xs)"
  by (induction xs arbitrary: acc) (auto simp: tally_def Let_def split: prod.splits)

lemma get_debate_stats_forCount:
  "forCount (get_debate_stats xs) = length (filter (\<lambda>a. side a = js ''for'') xs)"
  using foldl_tally_forCount [of "(stats_init, [])" xs]
  by (cases "foldl tally (stats_init, []) xs")
    (simp add: get_debate_stats_def stats_init_def Let_def)

lemma get_debate_stats_againstCount:
  "againstCount (get_debate_stats xs) = length (filter (\<lambda>a. side a \<noteq> js ''for'') xs)"
  using foldl_tally_againstCount [of "(stats_init, [])" xs]
  by (cases "foldl tally (stats_init, []) xs")
    (simp add: get_debate_stats_def stats_init_def Let_def)

lemma foldl_tally_forPoints:
  "forPoints (fst (foldl tally acc xs)) =
     forPoints (fst acc) + (\<Sum>a\<leftarrow>filter (\<lambda>a. side a = js ''for'') xs. 1 + isLong a)"
  by (induction xs arbitrary: acc) (auto simp: tally_def Let_def split: prod.splits)

lemma foldl_tally_againstPoints:
  "againstPoints (fst (foldl tally acc xs)) =
     againstPoints (fst acc) + (\<Sum>a\<leftarrow>filter (\<lambda>a. side a \<noteq> js ''for'') xs. 1 + isLong a)"
  by (induction xs arbitrary: acc) (auto simp: tally_def Let_def split: prod.splits)

lemma set_set_add: "set (set_add s x) = insert x (set s)"
  by (auto simp: set_add_def)

lemma distinct_set_add: "distinct s \<Longrightarrow> distinct (set_add s x)"
  by (simp add: set_add_def)

lemma snd_tally: "snd (tally acc a) = set_add (snd acc) (authorName a)"
  by (cases acc) (simp add: tally_def Let_def)

lemma foldl_tally_set:
  "set (snd (foldl tally acc xs)) = set (snd acc) \<union> authorName ` set xs"
  by (induction xs arbitrary: acc) (auto simp: snd_tally set_set_add)

lemma foldl_tally_distinct:
  "distinct (snd acc) \<Longrightarrow> distinct (snd (foldl tally acc xs))"
  by (induction xs arbitrary: acc) (simp_all add: snd_tally distinct_set_add)

lemma foldl_tally_size:
  "length (snd (foldl tally (st, []) xs)) = card (authorName ` set xs)"
proof -
  have "distinct (snd (foldl tally (st, []) xs))"
    by (rule foldl_tally_distinct) simp
  then have "length (snd (foldl tally (st, []) xs)) = card (set (snd (foldl tally (st, []) xs)))"
    by (simp add: distinct_card)
  then show ?thesis
    by (simp add: foldl_tally_set)
qed

lemma get_debate_stats_forPoints:
  "forPoints (get_debate_stats xs) =
     (\<Sum>a\<leftarrow>filter (\<lambda>a. side a = js ''for'') xs. 1 + isLong a)"
  using foldl_tally_forPoints [of "(stats_init, [])" xs]
  by (cases "foldl tally (stats_init, []) xs")
    (simp add: get_debate_stats_def stats_init_def Let_def)

lemma get_debate_stats_againstPoints:
  "againstPoints (get_debate_stats xs) =
     (\<Sum>a\<leftarrow>filter (\<lambda>a. side a \<noteq> js ''for'') xs. 1 + isLong a)"
  using foldl_tally_againstPoints [of "(stats_init, [])" xs]
  by (cases "foldl tally (stats_init, []) xs")
    (simp add: get_debate_stats_def stats_init_def Let_def)

lemma get_debate_stats_participants:
  "participants (get_debate_stats xs) = card (authorName ` set xs)"
  using foldl_tally_size [of stats_init xs]
  by (cases "foldl tally (stats_init, []) xs")
    (simp add: get_debate_stats_def Let_def)

lemma get_debate_stats_winner:
  "winner (get_debate_stats xs) =
     (if forPoints (get_debate_stats xs) > againstPoints (get_debate_stats xs) then FOR
      else if againstPoints (get_debate_stats xs) > forPoints (get_debate_stats xs) then AGAINST
      else DRAW)"
  by (cases "foldl tally (stats_init, []) xs")
    (simp add: get_debate_stats_def Let_def)

lemma get_debate_stats_counts:
  "forCount (get_debate_stats xs) + againstCount (get_debate_stats xs) = length xs"
  by (simp add: get_debate_stats_forCount get_debate_stats_againstCount
      sum_length_filter_compl)

lemmas get_debate_stats_fields =
  get_debate_stats_forCount get_debate_stats_againstCount
  get_debate_stats_forPoints get_debate_stats_againstPoints
  get_debate_stats_participants

section \<open>Order and unread fields\<close>

lemma get_debate_stats_mset:
  assumes "mset xs = mset ys"
  shows "get_debate_stats xs = get_debate_stats ys"
proof -
  have len: "length (filter P xs) = length (filter P ys)" for P :: "argument \<Rightarrow> bool"
    using assms by (metis mset_filter size_mset)
  have sm: "sum_list (map f (filter P xs)) = sum_list (map f (filter P ys))"
    for P :: "argument \<Rightarrow> bool" and f :: "argument \<Rightarrow> nat"
    using assms by (metis mset_filter mset_map sum_mset_sum_list)
  have st: "set xs = set ys"
    using assms by (rule mset_eq_setD)
  show ?thesis
    by (rule stats.equality)
      (simp_all add: get_debate_stats_fields get_debate_stats_winner len sm st)
qed

lemma tally_observed:
  "side a = side b \<Longrightarrow> arg_text a = arg_text b \<Longrightarrow> authorName a = authorName b \<Longrightarrow>
   tally acc a = tally acc b"
proof -
  assume h: "side a = side b" "arg_text a = arg_text b" "authorName a = authorName b"
  then have "isLong a = isLong b" by (simp add: isLong_def)
  with h show ?thesis by (cases acc) (simp add: tally_def Let_def)
qed

lemma foldl_tally_observed:
  "list_all2 (\<lambda>a b. side a = side b \<and> arg_text a = arg_text b \<and> authorName a = authorName b) xs ys \<Longrightarrow>
   foldl tally acc xs = foldl tally acc ys"
proof (induction xs ys arbitrary: acc rule: list_all2_induct)
  case Nil
  show ?case by simp
next
  case (Cons a xs b ys)
  then show ?case by (simp add: tally_observed [of a b])
qed

lemma init_statsMap_aux:
  "foldl (\<lambda>m d. m(debate_id d \<mapsto> entry_init)) m0 debates k =
     (if k \<in> debate_id ` set debates then Some entry_init else m0 k)"
  by (induction debates arbitrary: m0) auto

lemma init_statsMap_apply:
  "init_statsMap debates k = (if k \<in> debate_id ` set debates then Some entry_init else None)"
  by (simp add: init_statsMap_def init_statsMap_aux)

lemma forEach_arguments_closed:
  "debate ` set args \<subseteq> dom m \<Longrightarrow>
   forEach_arguments m args =
     Inr (\<lambda>k. map_option (\<lambda>st. foldl tally_entry st (filter (\<lambda>a. debate a = k) args)) (m k))"
proof (induction args arbitrary: m)
  case Nil
  show ?case by (simp add: option.map_ident)
next
  case (Cons a args)
  from Cons.prems obtain st where st: "m (debate a) = Some st" by auto
  let ?m' = "m(debate a \<mapsto> tally_entry st a)"
  have "debate ` set args \<subseteq> dom ?m'" using Cons.prems by auto
  from Cons.IH [OF this]
  have "forEach_arguments ?m' args =
     Inr (\<lambda>k. map_option (\<lambda>st. foldl tally_entry st (filter (\<lambda>a. debate a = k) args)) (?m' k))" .
  moreover have "forEach_arguments m (a # args) = forEach_arguments ?m' args"
    by (simp add: list_tally_def st)
  moreover have "(\<lambda>k. map_option (\<lambda>st. foldl tally_entry st (filter (\<lambda>a. debate a = k) args)) (?m' k))
      = (\<lambda>k. map_option (\<lambda>st. foldl tally_entry st (filter (\<lambda>a. debate a = k) (a # args))) (m k))"
    by (rule ext) (simp add: st)
  ultimately show ?case by simp
qed

lemma abs_tally_entry: "abs_entry (tally_entry st a) = tally (abs_entry st) a"
  by (simp add: abs_entry_def tally_entry_def tally_def Let_def stats.truncate_def)

lemma abs_foldl: "abs_entry (foldl tally_entry st xs) = foldl tally (abs_entry st) xs"
  by (induction xs arbitrary: st) (simp_all add: abs_tally_entry)

lemma finalize_foldl: "finalize (foldl tally_entry entry_init xs) = get_debate_stats xs"
proof -
  have "abs_entry (foldl tally_entry entry_init xs) = foldl tally (stats_init, []) xs"
    by (simp add: abs_foldl) (simp add: abs_entry_def entry_init_def stats_init_def stats.truncate_def)
  then show ?thesis
    by (cases "foldl tally (stats_init, []) xs")
       (auto simp: finalize_def get_debate_stats_def abs_entry_def Let_def stats.truncate_def)
qed

lemma list_debates_eq:
  assumes "debate ` set args \<subseteq> debate_id ` set debates"
  shows "list_debates debates args =
     Inr (map (\<lambda>d. (d, get_debate_stats (filter (\<lambda>a. debate a = debate_id d) args))) debates)"
proof -
  have "debate ` set args \<subseteq> dom (init_statsMap debates)"
    using assms by (auto simp: init_statsMap_apply dom_def)
  then have "forEach_arguments (init_statsMap debates) args =
     Inr (\<lambda>k. map_option (\<lambda>st. foldl tally_entry st (filter (\<lambda>a. debate a = k) args))
       (init_statsMap debates k))"
    by (rule forEach_arguments_closed)
  then show ?thesis
    by (simp add: list_debates_def init_statsMap_apply finalize_foldl)
qed

section \<open>The list endpoint on the result of its query\<close>

lemma list_debates_query:
  "list_debates debates (find_in (map debate_id debates) coll) =
     Inr (map (\<lambda>d. (d, get_debate_stats (filter (\<lambda>a. debate a = debate_id d) coll))) debates)"
proof -
  let ?args = "find_in (map debate_id debates) coll"
  have "debate ` set ?args \<subseteq> debate_id ` set debates"
    by (auto simp: find_in_def)
  from list_debates_eq [OF this]
  have "list_debates debates ?args =
     Inr (map (\<lambda>d. (d, get_debate_stats (filter (\<lambda>a. debate a = debate_id d) ?args))) debates)" .
  moreover have "filter (\<lambda>a. debate a = debate_id d) ?args =
      filter (\<lambda>a. debate a = debate_id d) coll" if "d \<in> set debates" for d
    using that by (auto simp: find_in_def intro: filter_cong)
  ultimately show ?thesis
    by simp
qed

section \<open>Stored documents that have their text\<close>











section \<open>Escaping in one pass\<close>

lemma replace_all_append:
  "replace_all c r (xs @ ys) = replace_all c r xs @ replace_all c r ys"
  by (simp add: replace_all_def)

lemma escapeXml_append: "escapeXml (xs @ ys) = escapeXml xs @ escapeXml ys"
  by (simp add: escapeXml_def replace_all_append)

lemma escapeXml_single: "escapeXml [x] = spec_xml_entity x"
  by (simp add: escapeXml_def replace_all_def spec_xml_entity_def js_def)

lemma escapeXml_eq: "escapeXml str = spec_escapeXml str"
proof (induction str)
  case Nil
  show ?case by (simp add: escapeXml_def replace_all_def spec_escapeXml_def)
next
  case (Cons x xs)
  have "escapeXml (x # xs) = escapeXml [x] @ escapeXml xs"
    using escapeXml_append [of "[x]" xs] by simp
  with Cons show ?case
    by (simp add: escapeXml_single spec_escapeXml_def)
qed

lemma foldl_append_concat:
  "foldl (\<lambda>acc x. acc @ f x) start xs = start @ concat (map f xs)"
  by (induction xs arbitrary: start) simp_all

section \<open>The claims\<close>

text \<open>
  Claim C1. For every finite sequence of arguments, the computed statistics satisfy
  \<open>for + against = length of the input\<close>: each argument is tallied on exactly one side.
  The list endpoint returns every debate with statistics whose two counts add up to the
  number of that debate's arguments.
\<close>

theorem counts_sum_to_length:
  "forCount (get_debate_stats xs) + againstCount (get_debate_stats xs) = length xs
   \<and> (\<exists>r. list_debates debates (find_in (map debate_id debates) coll) = Inr r
        \<and> map fst r = debates
        \<and> map (\<lambda>(d, st). forCount st + againstCount st) r =
            map (\<lambda>d. length (filter (\<lambda>a. debate a = debate_id d) coll)) debates)"
  by (simp add: list_debates_query get_debate_stats_counts comp_def)

text \<open>
  Claim C2. The winner is \<open>FOR\<close> when \<open>forPoints > againstPoints\<close>, \<open>AGAINST\<close> when
  \<open>againstPoints > forPoints\<close> and \<open>DRAW\<close> when the points are equal, in the
  single-debate endpoint and in every entry that the list endpoint returns. For two short
  arguments for (authors A and B) and one argument against of 150 characters (author C)
  both endpoints give 2 for with 2 points, 1 against with 2 points, a draw, 3
  participants.
\<close>

theorem winner_by_points_and_example:
  "winner (get_debate_stats xs) =
     (if forPoints (get_debate_stats xs) > againstPoints (get_debate_stats xs) then FOR
      else if againstPoints (get_debate_stats xs) > forPoints (get_debate_stats xs) then AGAINST
      else DRAW)
   \<and> get_debate_stats
       [\<lparr>debate = d, side = js ''for'', arg_text = js ''x'', authorName = js ''A'',
         user = u1, createdAt = t1\<rparr>,
        \<lparr>debate = d, side = js ''for'', arg_text = js ''y'', authorName = js ''B'',
         user = u2, createdAt = t2\<rparr>,
        \<lparr>debate = d, side = js ''against'', arg_text = replicate 150 (of_char CHR ''z''),
         authorName = js ''C'', user = u3, createdAt = t3\<rparr>]
     = \<lparr>forCount = 2, againstCount = 1, participants = 3,
        forPoints = 2, againstPoints = 2, winner = DRAW\<rparr>
   \<and> (\<exists>r. list_debates debates (find_in (map debate_id debates) coll) = Inr r
        \<and> map fst r = debates
        \<and> map (\<lambda>(d, st). winner st) r =
            map (\<lambda>(d, st). if forPoints st > againstPoints st then FOR
                           else if againstPoints st > forPoints st then AGAINST
                           else DRAW) r)
   \<and> list_debates [dd]
       [\<lparr>debate = debate_id dd, side = js ''for'', arg_text = js ''x'', authorName = js ''A'',
         user = u1, createdAt = t1\<rparr>,
        \<lparr>debate = debate_id dd, side = js ''for'', arg_text = js ''y'', authorName = js ''B'',
         user = u2, createdAt = t2\<rparr>,
        \<lparr>debate = debate_id dd, side = js ''against'',
         arg_text = replicate 150 (of_char CHR ''z''),
         authorName = js ''C'', user = u3, createdAt = t3\<rparr>]
     = Inr [(dd, \<lparr>forCount = 2, againstCount = 1, participants = 3,
        forPoints = 2, againstPoints = 2, winner = DRAW\<rparr>)]"
proof (intro conjI)
  show "winner (get_debate_stats xs) =
     (if forPoints (get_debate_stats xs) > againstPoints (get_debate_stats xs) then FOR
      else if againstPoints (get_debate_stats xs) > forPoints (get_debate_stats xs) then AGAINST
      else DRAW)"
    by (rule get_debate_stats_winner)
next
  show "get_debate_stats
       [\<lparr>debate = d, side = js ''for'', arg_text = js ''x'', authorName = js ''A'',
         user = u1, createdAt = t1\<rparr>,
        \<lparr>debate = d, side = js ''for'', arg_text = js ''y'', authorName = js ''B'',
         user = u2, createdAt = t2\<rparr>,
        \<lparr>debate = d, side = js ''against'', arg_text = replicate 150 (of_char CHR ''z''),
         authorName = js ''C'', user = u3, createdAt = t3\<rparr>]
     = \<lparr>forCount = 2, againstCount = 1, participants = 3,
        forPoints = 2, againstPoints = 2, winner = DRAW\<rparr>"
    by (simp add: get_debate_stats_def stats_init_def tally_def set_add_def isLong_def
        js_def Let_def)
next
  show "\<exists>r. list_debates debates (find_in (map debate_id debates) coll) = Inr r
        \<and> map fst r = debates
        \<and> map (\<lambda>(d, st). winner st) r =
            map (\<lambda>(d, st). if forPoints st > againstPoints st then FOR
                           else if againstPoints st > forPoints st then AGAINST
                           else DRAW) r"
    by (simp add: list_debates_query get_debate_stats_winner comp_def)
next
  show "list_debates [dd]
       [\<lparr>debate = debate_id dd, side = js ''for'', arg_text = js ''x'', authorName = js ''A'',
         user = u1, createdAt = t1\<rparr>,
        \<lparr>debate = debate_id dd, side = js ''for'', arg_text = js ''y'', authorName = js ''B'',
         user = u2, createdAt = t2\<rparr>,
        \<lparr>debate = debate_id dd, side = js ''against'',
         arg_text = replicate 150 (of_char CHR ''z''),
         authorName = js ''C'', user = u3, createdAt = t3\<rparr>]
     = Inr [(dd, \<lparr>forCount = 2, againstCount = 1, participants = 3,
        forPoints = 2, againstPoints = 2, winner = DRAW\<rparr>)]"
    by (simp add: list_debates_def init_statsMap_def list_tally_def tally_entry_def
        entry_init_def finalize_def stats.truncate_def set_add_def isLong_def js_def Let_def)
qed

text \<open>
  Claim C3. An argument adds exactly 1 point to its side when its text is shorter than
  120 characters and exactly 2 points when its text has 120 characters or more; the other
  side's points do not change. (At length 119 that is 1 point, at length 120 it is 2.) In
  the list endpoint the argument adds these points to its side in the statistics of its
  own debate and nothing to any other debate.
\<close>

theorem points_per_argument:
  "(side a = js ''for'' \<longrightarrow>
      forPoints (get_debate_stats (xs @ a # ys)) =
        forPoints (get_debate_stats (xs @ ys)) + (if length (arg_text a) < 120 then 1 else 2)
      \<and> againstPoints (get_debate_stats (xs @ a # ys)) = againstPoints (get_debate_stats (xs @ ys)))
   \<and> (side a \<noteq> js ''for'' \<longrightarrow>
      againstPoints (get_debate_stats (xs @ a # ys)) =
        againstPoints (get_debate_stats (xs @ ys)) + (if length (arg_text a) < 120 then 1 else 2)
      \<and> forPoints (get_debate_stats (xs @ a # ys)) = forPoints (get_debate_stats (xs @ ys)))
   \<and> (\<exists>r r'. list_debates debates (find_in (map debate_id debates) (xs @ ys)) = Inr r
        \<and> list_debates debates (find_in (map debate_id debates) (xs @ a # ys)) = Inr r'
        \<and> map fst r = debates \<and> map fst r' = debates
        \<and> map (\<lambda>(d, st). forPoints st) r' =
            map (\<lambda>(d, st). forPoints st +
                  (if debate a = debate_id d \<and> side a = js ''for''
                   then (if length (arg_text a) < 120 then 1 else 2) else 0)) r
        \<and> map (\<lambda>(d, st). againstPoints st) r' =
            map (\<lambda>(d, st). againstPoints st +
                  (if debate a = debate_id d \<and> side a \<noteq> js ''for''
                   then (if length (arg_text a) < 120 then 1 else 2) else 0)) r)"
  by (simp add: list_debates_query get_debate_stats_fields isLong_def comp_def)

theorem points_per_argument_witness:
  "forPoints (get_debate_stats
      [\<lparr>debate = 1, side = js ''for'', arg_text = replicate 119 (of_char CHR ''a''),
        authorName = js ''A'', user = None, createdAt = 0\<rparr>]) = forPoints (get_debate_stats []) + 1
   \<and> forPoints (get_debate_stats
      [\<lparr>debate = 1, side = js ''for'', arg_text = replicate 120 (of_char CHR ''a''),
        authorName = js ''A'', user = None, createdAt = 0\<rparr>]) = forPoints (get_debate_stats []) + 2
   \<and> againstPoints (get_debate_stats
      [\<lparr>debate = 1, side = js ''against'', arg_text = replicate 119 (of_char CHR ''a''),
        authorName = js ''A'', user = None, createdAt = 0\<rparr>]) = againstPoints (get_debate_stats []) + 1
   \<and> againstPoints (get_debate_stats
      [\<lparr>debate = 1, side = js ''against'', arg_text = replicate 120 (of_char CHR ''a''),
        authorName = js ''A'', user = None, createdAt = 0\<rparr>]) = againstPoints (get_debate_stats []) + 2
   \<and> list_debates [\<lparr>debate_id = 1, title = js ''Tabs'', description = None\<rparr>]
      [\<lparr>debate = 1, side = js ''for'', arg_text = replicate 119 (of_char CHR ''a''),
        authorName = js ''A'', user = None, createdAt = 0\<rparr>,
       \<lparr>debate = 1, side = js ''against'', arg_text = replicate 120 (of_char CHR ''a''),
        authorName = js ''A'', user = None, createdAt = 0\<rparr>]
     = Inr [(\<lparr>debate_id = 1, title = js ''Tabs'', description = None\<rparr>,
        \<lparr>forCount = 1, againstCount = 1, participants = 1,
         forPoints = 1, againstPoints = 2, winner = AGAINST\<rparr>)]"
  using
    points_per_argument [of "\<lparr>debate = 1, side = js ''for'', arg_text = replicate 119 (of_char CHR ''a''),
        authorName = js ''A'', user = None, createdAt = 0\<rparr>" "[]" "[]", THEN conjunct1]
    points_per_argument [of "\<lparr>debate = 1, side = js ''for'', arg_text = replicate 120 (of_char CHR ''a''),
        authorName = js ''A'', user = None, createdAt = 0\<rparr>" "[]" "[]", THEN conjunct1]
    points_per_argument [of "\<lparr>debate = 1, side = js ''against'', arg_text = replicate 119 (of_char CHR ''a''),
        authorName = js ''A'', user = None, createdAt = 0\<rparr>" "[]" "[]", THEN conjunct2, THEN conjunct1]
    points_per_argument [of "\<lparr>debate = 1, side = js ''against'', arg_text = replicate 120 (of_char CHR ''a''),
        authorName = js ''A'', user = None, createdAt = 0\<rparr>"
      "[\<lparr>debate = 1, side = js ''for'', arg_text = replicate 119 (of_char CHR ''a''),
        authorName = js ''A'', user = None, createdAt = 0\<rparr>]" "[]"
      "[\<lparr>debate_id = 1, title = js ''Tabs'', description = None\<rparr>]"]
  by (simp add: get_debate_stats_forPoints get_debate_stats_againstPoints
      js_def list_debates_def init_statsMap_def list_tally_def tally_entry_def
      entry_init_def finalize_def stats.truncate_def set_add_def isLong_def find_in_def Let_def)

text \<open>
  Claim C4. The participant count is the number of distinct author names over all
  arguments of both sides, compared by exact (case-sensitive) string equality: two
  arguments with the same author name count once, also on opposite sides, and two
  arguments whose author names differ count twice. The list endpoint returns every debate
  with the number of distinct author names among that debate's arguments.
\<close>

theorem participants_distinct_authors:
  "participants (get_debate_stats xs) = card (authorName ` set xs)
   \<and> (authorName a = authorName b \<longrightarrow> participants (get_debate_stats [a, b]) = 1)
   \<and> (authorName a \<noteq> authorName b \<longrightarrow> participants (get_debate_stats [a, b]) = 2)
   \<and> (\<exists>r. list_debates debates (find_in (map debate_id debates) coll) = Inr r
        \<and> map fst r = debates
        \<and> map (\<lambda>(d, st). participants st) r =
            map (\<lambda>d. card (authorName ` {x \<in> set coll. debate x = debate_id d})) debates)"
  by (simp add: list_debates_query get_debate_stats_participants comp_def)

theorem participants_distinct_authors_witness:
  "participants (get_debate_stats
      [\<lparr>debate = 1, side = js ''for'', arg_text = js ''yes'',
        authorName = js ''Alice'', user = None, createdAt = 0\<rparr>,
       \<lparr>debate = 1, side = js ''against'', arg_text = js ''no'',
        authorName = js ''Alice'', user = None, createdAt = 1\<rparr>]) = 1
   \<and> participants (get_debate_stats
      [\<lparr>debate = 1, side = js ''for'', arg_text = js ''yes'',
        authorName = js ''Alice'', user = None, createdAt = 0\<rparr>,
       \<lparr>debate = 1, side = js ''against'', arg_text = js ''no'',
        authorName = js ''alice'', user = None, createdAt = 1\<rparr>]) = 2
   \<and> list_debates [\<lparr>debate_id = 1, title = js ''Tabs'', description = None\<rparr>]
      [\<lparr>debate = 1, side = js ''for'', arg_text = js ''yes'',
        authorName = js ''Alice'', user = None, createdAt = 0\<rparr>,
       \<lparr>debate = 1, side = js ''against'', arg_text = js ''no'',
        authorName = js ''Alice'', user = None, createdAt = 1\<rparr>]
     = Inr [(\<lparr>debate_id = 1, title = js ''Tabs'', description = None\<rparr>,
        \<lparr>forCount = 1, againstCount = 1, participants = 1,
         forPoints = 1, againstPoints = 1, winner = DRAW\<rparr>)]"
proof (intro conjI)
  show "participants (get_debate_stats
      [\<lparr>debate = 1, side = js ''for'', arg_text = js ''yes'',
        authorName = js ''Alice'', user = None, createdAt = 0\<rparr>,
       \<lparr>debate = 1, side = js ''against'', arg_text = js ''no'',
        authorName = js ''Alice'', user = None, createdAt = 1\<rparr>]) = 1"
    using participants_distinct_authors [of "[]"
      "\<lparr>debate = 1, side = js ''for'', arg_text = js ''yes'',
        authorName = js ''Alice'', user = None, createdAt = 0\<rparr>"
      "\<lparr>debate = 1, side = js ''against'', arg_text = js ''no'',
        authorName = js ''Alice'', user = None, createdAt = 1\<rparr>", THEN conjunct2, THEN conjunct1]
    by simp
next
  show "participants (get_debate_stats
      [\<lparr>debate = 1, side = js ''for'', arg_text = js ''yes'',
        authorName = js ''Alice'', user = None, createdAt = 0\<rparr>,
       \<lparr>debate = 1, side = js ''against'', arg_text = js ''no'',
        authorName = js ''alice'', user = None, createdAt = 1\<rparr>]) = 2"
    using participants_distinct_authors [of "[]"
      "\<lparr>debate = 1, side = js ''for'', arg_text = js ''yes'',
        authorName = js ''Alice'', user = None, createdAt = 0\<rparr>"
      "\<lparr>debate = 1, side = js ''against'', arg_text = js ''no'',
        authorName = js ''alice'', user = None, createdAt = 1\<rparr>", THEN conjunct2, THEN conjunct2, THEN conjunct1]
    by (simp add: js_def)
next
  show "list_debates [\<lparr>debate_id = 1, title = js ''Tabs'', description = None\<rparr>]
      [\<lparr>debate = 1, side = js ''for'', arg_text = js ''yes'',
        authorName = js ''Alice'', user = None, createdAt = 0\<rparr>,
       \<lparr>debate = 1, side = js ''against'', arg_text = js ''no'',
        authorName = js ''Alice'', user = None, createdAt = 1\<rparr>]
     = Inr [(\<lparr>debate_id = 1, title = js ''Tabs'', description = None\<rparr>,
        \<lparr>forCount = 1, againstCount = 1, participants = 1,
         forPoints = 1, againstPoints = 1, winner = DRAW\<rparr>)]"
    using participants_distinct_authors [of "[]" _ _
      "[\<lparr>debate_id = 1, title = js ''Tabs'', description = None\<rparr>]"
      "[\<lparr>debate = 1, side = js ''for'', arg_text = js ''yes'',
        authorName = js ''Alice'', user = None, createdAt = 0\<rparr>,
        \<lparr>debate = 1, side = js ''against'', arg_text = js ''no'',
        authorName = js ''Alice'', user = None, createdAt = 1\<rparr>]", THEN conjunct2, THEN conjunct2, THEN conjunct2]
    by (simp add: js_def list_debates_def init_statsMap_def list_tally_def tally_entry_def
      entry_init_def finalize_def stats.truncate_def set_add_def isLong_def find_in_def Let_def)
qed

text \<open>
  Claim C5. For the empty sequence every count is zero and the winner is \<open>DRAW\<close>.
\<close>

theorem empty_input_all_zero_draw:
  "get_debate_stats [] =
     \<lparr>forCount = 0, againstCount = 0, participants = 0,
      forPoints = 0, againstPoints = 0, winner = DRAW\<rparr>"
  by (simp add: get_debate_stats_def stats_init_def)

text \<open>
  Claim C6. The statistics do not depend on the order of the arguments: on a sequence
  and on any permutation of it, \<open>forPoints\<close>, \<open>againstPoints\<close>, the winner and the
  participant count are the same.
\<close>

theorem permutation_invariance:
  "mset xs = mset ys \<Longrightarrow>
     forPoints (get_debate_stats xs) = forPoints (get_debate_stats ys)
   \<and> againstPoints (get_debate_stats xs) = againstPoints (get_debate_stats ys)
   \<and> winner (get_debate_stats xs) = winner (get_debate_stats ys)
   \<and> participants (get_debate_stats xs) = participants (get_debate_stats ys)"
  using get_debate_stats_mset [of xs ys] by simp

theorem permutation_invariance_witness:
  "forPoints (get_debate_stats
      [\<lparr>debate = 1, side = js ''for'', arg_text = js ''yes'', authorName = js ''Alice'',
        user = None, createdAt = 0\<rparr>,
       \<lparr>debate = 1, side = js ''against'', arg_text = replicate 120 (of_char CHR ''n''),
        authorName = js ''Bob'', user = None, createdAt = 1\<rparr>])
   = forPoints (get_debate_stats
      [\<lparr>debate = 1, side = js ''against'', arg_text = replicate 120 (of_char CHR ''n''),
        authorName = js ''Bob'', user = None, createdAt = 1\<rparr>,
       \<lparr>debate = 1, side = js ''for'', arg_text = js ''yes'', authorName = js ''Alice'',
        user = None, createdAt = 0\<rparr>])
   \<and> winner (get_debate_stats
      [\<lparr>debate = 1, side = js ''for'', arg_text = js ''yes'', authorName = js ''Alice'',
        user = None, createdAt = 0\<rparr>,
       \<lparr>debate = 1, side = js ''against'', arg_text = replicate 120 (of_char CHR ''n''),
        authorName = js ''Bob'', user = None, createdAt = 1\<rparr>])
   = winner (get_debate_stats
      [\<lparr>debate = 1, side = js ''against'', arg_text = replicate 120 (of_char CHR ''n''),
        authorName = js ''Bob'', user = None, createdAt = 1\<rparr>,
       \<lparr>debate = 1, side = js ''for'', arg_text = js ''yes'', authorName = js ''Alice'',
        user = None, createdAt = 0\<rparr>])"
  using permutation_invariance
    [of "[\<lparr>debate = 1, side = js ''for'', arg_text = js ''yes'', authorName = js ''Alice'',
        user = None, createdAt = 0\<rparr>,
       \<lparr>debate = 1, side = js ''against'', arg_text = replicate 120 (of_char CHR ''n''),
        authorName = js ''Bob'', user = None, createdAt = 1\<rparr>]"
      "[\<lparr>debate = 1, side = js ''against'', arg_text = replicate 120 (of_char CHR ''n''),
        authorName = js ''Bob'', user = None, createdAt = 1\<rparr>,
       \<lparr>debate = 1, side = js ''for'', arg_text = js ''yes'', authorName = js ''Alice'',
        user = None, createdAt = 0\<rparr>]"]
  by simp

text \<open>
  Claim C7. The scoring is deterministic and reads nothing but its input: two runs on
  sequences that agree, position by position, on side, text and author name return
  statistics that are equal in every field, whatever the other fields of the documents
  are.
\<close>

theorem deterministic_two_runs:
  assumes "map (\<lambda>a. (side a, arg_text a, authorName a)) xs =
           map (\<lambda>a. (side a, arg_text a, authorName a)) ys"
  shows "get_debate_stats xs = get_debate_stats ys"
proof -
  from assms have "list_all2 (=) (map (\<lambda>a. (side a, arg_text a, authorName a)) xs)
           (map (\<lambda>a. (side a, arg_text a, authorName a)) ys)"
    by (simp add: list.rel_eq)
  then have "list_all2
      (\<lambda>a b. side a = side b \<and> arg_text a = arg_text b \<and> authorName a = authorName b) xs ys"
    by (simp add: list.rel_map)
  then have "foldl tally (stats_init, []) xs = foldl tally (stats_init, []) ys"
    by (rule foldl_tally_observed)
  then show ?thesis
    by (simp add: get_debate_stats_def)
qed

theorem deterministic_two_runs_witness:
  "get_debate_stats
      [\<lparr>debate = 1, side = js ''for'', arg_text = js ''yes'', authorName = js ''Alice'',
        user = None, createdAt = 0\<rparr>]
   = get_debate_stats
      [\<lparr>debate = 2, side = js ''for'', arg_text = js ''yes'', authorName = js ''Alice'',
        user = Some 7, createdAt = 5\<rparr>]"
  using deterministic_two_runs
    [of "[\<lparr>debate = 1, side = js ''for'', arg_text = js ''yes'', authorName = js ''Alice'',
        user = None, createdAt = 0\<rparr>]"
      "[\<lparr>debate = 2, side = js ''for'', arg_text = js ''yes'', authorName = js ''Alice'',
        user = Some 7, createdAt = 5\<rparr>]"]
  by simp

text \<open>
  Claim C8. The XML export writes the debate's title and description and each argument's
  author name and text through \<open>escapeXml\<close>, and \<open>escapeXml\<close> replaces every \<open>&\<close>,
  \<open><\<close>, \<open>>\<close>, double quote and apostrophe of its input by \<open>&amp;\<close>, \<open>&lt;\<close>,
  \<open>&gt;\<close>, \<open>&quot;\<close> and \<open>&apos;\<close>, leaves every other character as it is, and
  does not escape the \<open>&\<close> of an entity it has produced.
\<close>

theorem escapeXml_entities:
  "escapeXml str = spec_escapeXml str
   \<and> export_xml toString toISOString d args =
       js ''<?xml version='' @ dq @ js ''1.0'' @ dq @ js '' encoding='' @ dq
         @ js ''UTF-8'' @ dq @ js ''?>\<newline>''
     @ js ''<debate id='' @ dq @ toString (debate_id d) @ dq @ js ''>\<newline>''
     @ js ''  <title>'' @ spec_escapeXml (title d) @ js ''</title>\<newline>''
     @ js ''  <description>''
         @ spec_escapeXml (case description d of None \<Rightarrow> [] | Some s \<Rightarrow> s)
         @ js ''</description>\<newline>''
     @ js ''  <arguments>\<newline>''
     @ concat (map (\<lambda>arg.
           js ''    <argument side='' @ dq @ side arg @ dq @ js '' author='' @ dq
             @ spec_escapeXml (authorName arg) @ dq @ js ''>\<newline>''
         @ js ''      <text>'' @ spec_escapeXml (arg_text arg) @ js ''</text>\<newline>''
         @ js ''      <createdAt>'' @ toISOString (createdAt arg) @ js ''</createdAt>\<newline>''
         @ js ''    </argument>\<newline>'') args)
     @ js ''  </arguments>\<newline>''
     @ js ''</debate>\<newline>''"
proof
  show "escapeXml str = spec_escapeXml str"
    by (rule escapeXml_eq)
next
  have "argument_xml toISOString = (\<lambda>arg.
           js ''    <argument side='' @ dq @ side arg @ dq @ js '' author='' @ dq
             @ spec_escapeXml (authorName arg) @ dq @ js ''>\<newline>''
         @ js ''      <text>'' @ spec_escapeXml (arg_text arg) @ js ''</text>\<newline>''
         @ js ''      <createdAt>'' @ toISOString (createdAt arg) @ js ''</createdAt>\<newline>''
         @ js ''    </argument>\<newline>'')"
    by (rule ext) (simp only: argument_xml_def escapeXml_eq)
  then show "export_xml toString toISOString d args =
       js ''<?xml version='' @ dq @ js ''1.0'' @ dq @ js '' encoding='' @ dq
         @ js ''UTF-8'' @ dq @ js ''?>\<newline>''
     @ js ''<debate id='' @ dq @ toString (debate_id d) @ dq @ js ''>\<newline>''
     @ js ''  <title>'' @ spec_escapeXml (title d) @ js ''</title>\<newline>''
     @ js ''  <description>''
         @ spec_escapeXml (case description d of None \<Rightarrow> [] | Some s \<Rightarrow> s)
         @ js ''</description>\<newline>''
     @ js ''  <arguments>\<newline>''
     @ concat (map (\<lambda>arg.
           js ''    <argument side='' @ dq @ side arg @ dq @ js '' author='' @ dq
             @ spec_escapeXml (authorName arg) @ dq @ js ''>\<newline>''
         @ js ''      <text>'' @ spec_escapeXml (arg_text arg) @ js ''</text>\<newline>''
         @ js ''      <createdAt>'' @ toISOString (createdAt arg) @ js ''</createdAt>\<newline>''
         @ js ''    </argument>\<newline>'') args)
     @ js ''  </arguments>\<newline>''
     @ js ''</debate>\<newline>''"
    by (simp only: export_xml_def Let_def foldl_append_concat escapeXml_eq append_assoc)
qed

text \<open>
  Claim C9. The accumulation of the list endpoint and the accumulation of the
  single-debate endpoint compute the same statistics: on a sequence of arguments of one
  debate the list endpoint returns for that debate what the single-debate endpoint
  computes, and on a collection of arguments the list endpoint returns, for every
  debate, the statistics that the single-debate endpoint computes from its own query.
\<close>

theorem list_endpoint_agrees_with_single:
  "((\<forall>a \<in> set xs. debate a = debate_id d) \<longrightarrow>
      list_debates [d] xs = Inr [(d, get_debate_stats xs)])
   \<and> list_debates debates (find_in (map debate_id debates) coll) =
       Inr (map (\<lambda>d. (d, get_debate_stats (find_sorted (debate_id d) coll))) debates)"
proof (intro conjI impI)
  assume h: "\<forall>a \<in> set xs. debate a = debate_id d"
  then have "debate ` set xs \<subseteq> debate_id ` set [d]" by auto
  from list_debates_eq [OF this] h show "list_debates [d] xs = Inr [(d, get_debate_stats xs)]"
    by simp
next
  let ?args = "find_in (map debate_id debates) coll"
  have "debate ` set ?args \<subseteq> debate_id ` set debates"
    by (auto simp: find_in_def)
  from list_debates_eq [OF this]
  have "list_debates debates ?args =
     Inr (map (\<lambda>d. (d, get_debate_stats (filter (\<lambda>a. debate a = debate_id d) ?args))) debates)" .
  moreover have "get_debate_stats (filter (\<lambda>a. debate a = debate_id d) ?args) =
      get_debate_stats (find_sorted (debate_id d) coll)" if "d \<in> set debates" for d
  proof -
    have "filter (\<lambda>a. debate a = debate_id d) ?args = filter (\<lambda>a. debate a = debate_id d) coll"
      using that by (auto simp: find_in_def intro: filter_cong)
    moreover have "mset (filter (\<lambda>a. debate a = debate_id d) coll) =
        mset (find_sorted (debate_id d) coll)"
      by (simp add: find_sorted_def)
    ultimately show ?thesis
      using get_debate_stats_mset
        [of "filter (\<lambda>a. debate a = debate_id d) coll" "find_sorted (debate_id d) coll"]
      by simp
  qed
  ultimately show "list_debates debates ?args =
       Inr (map (\<lambda>d. (d, get_debate_stats (find_sorted (debate_id d) coll))) debates)"
    by simp
qed

theorem list_endpoint_agrees_with_single_witness:
  "list_debates [\<lparr>debate_id = 1, title = js ''Tabs'', description = None\<rparr>]
      [\<lparr>debate = 1, side = js ''for'', arg_text = js ''yes'', authorName = js ''Alice'',
        user = None, createdAt = 0\<rparr>,
       \<lparr>debate = 1, side = js ''against'', arg_text = replicate 120 (of_char CHR ''n''),
        authorName = js ''Bob'', user = None, createdAt = 1\<rparr>]
   = Inr [(\<lparr>debate_id = 1, title = js ''Tabs'', description = None\<rparr>,
      get_debate_stats
       [\<lparr>debate = 1, side = js ''for'', arg_text = js ''yes'', authorName = js ''Alice'',
         user = None, createdAt = 0\<rparr>,
        \<lparr>debate = 1, side = js ''against'', arg_text = replicate 120 (of_char CHR ''n''),
         authorName = js ''Bob'', user = None, createdAt = 1\<rparr>])]"
  using list_endpoint_agrees_with_single
    [of "[\<lparr>debate = 1, side = js ''for'', arg_text = js ''yes'', authorName = js ''Alice'',
        user = None, createdAt = 0\<rparr>,
       \<lparr>debate = 1, side = js ''against'', arg_text = replicate 120 (of_char CHR ''n''),
        authorName = js ''Bob'', user = None, createdAt = 1\<rparr>]"
      "\<lparr>debate_id = 1, title = js ''Tabs'', description = None\<rparr>" "[]" "[]"]
  by simp




end
